theory Spec2Isabelle
  imports Main "HOL-Library.AList"
begin

section \<open>Python values\<close>

text \<open>
  The values that \<^verbatim>\<open>response.json()\<close> can return. A Python \<^verbatim>\<open>dict\<close> is an association
  list read with \<open>map_of\<close>; \<^verbatim>\<open>None\<close> is \<open>JNull\<close>. A float is carried by its Python
  \<^verbatim>\<open>repr\<close>, which is all that this client ever looks at (its truth value).
\<close>

datatype json =
    JNull
  | JBool bool
  | JInt int
  | JFloat string
  | JStr string
  | JArr "json list"
  | JObj "(string \<times> json) list"

text \<open>Python's truth value testing (\<^verbatim>\<open>if x\<close>, \<^verbatim>\<open>not x\<close>) on such a value.\<close>

fun truthy :: "json \<Rightarrow> bool" where
  "truthy JNull = False"
| "truthy (JBool b) = b"
| "truthy (JInt n) = (n \<noteq> 0)"
| "truthy (JFloat r) = (r \<noteq> ''0.0'' \<and> r \<noteq> ''-0.0'')"
| "truthy (JStr s) = (s \<noteq> [])"
| "truthy (JArr xs) = (xs \<noteq> [])"
| "truthy (JObj kvs) = (kvs \<noteq> [])"

text \<open>The exceptions that leave the client's methods.\<close>

record Error =
  type :: string
  code :: int
  message :: string
  info :: "(string \<times> json) list list option"

datatype exn =
    AttributeError
  | KeyError
  | IndexError
  | TypeError
  | ValueError
  | ValidationError
  | ConnectionError
  | ClientError
  | ContentTypeError
  | JSONDecodeError
  | DmartException int Error

text \<open>\<^verbatim>\<open>x[key]\<close> with a string key, and \<^verbatim>\<open>x[0]\<close>.\<close>

fun getitem :: "json \<Rightarrow> string \<Rightarrow> exn + json" where
  "getitem (JObj kvs) k = (case map_of kvs k of None \<Rightarrow> Inl KeyError | Some v \<Rightarrow> Inr v)"
| "getitem _ k = Inl TypeError"

fun getitem0 :: "json \<Rightarrow> exn + json" where
  "getitem0 (JArr []) = Inl IndexError"
| "getitem0 (JArr (x # xs)) = Inr x"
| "getitem0 (JStr []) = Inl IndexError"
| "getitem0 (JStr (c # cs)) = Inr (JStr [c])"
| "getitem0 (JObj kvs) = Inl KeyError"
| "getitem0 _ = Inl TypeError"

text \<open>\<^verbatim>\<open>x.get(key, default)\<close>: only a dict has the method.\<close>

fun get_default :: "json \<Rightarrow> string \<Rightarrow> json \<Rightarrow> exn + json" where
  "get_default (JObj kvs) k d = (case map_of kvs k of None \<Rightarrow> Inr d | Some v \<Rightarrow> Inr v)"
| "get_default _ k d = Inl AttributeError"

section \<open>Enumerations\<close>

datatype Status = Status_success | Status_failed

datatype RequestType =
    RequestType_create | RequestType_update | RequestType_patch | RequestType_update_acl
  | RequestType_assign | RequestType_r_replace | RequestType_delete | RequestType_move

fun RequestType_value :: "RequestType \<Rightarrow> string" where
  "RequestType_value RequestType_create = ''create''"
| "RequestType_value RequestType_update = ''update''"
| "RequestType_value RequestType_patch = ''patch''"
| "RequestType_value RequestType_update_acl = ''update_acl''"
| "RequestType_value RequestType_assign = ''assign''"
| "RequestType_value RequestType_r_replace = ''replace''"
| "RequestType_value RequestType_delete = ''delete''"
| "RequestType_value RequestType_move = ''move''"

datatype ResourceType =
    ResourceType_user | ResourceType_group | ResourceType_folder | ResourceType_schema
  | ResourceType_content | ResourceType_acl | ResourceType_comment | ResourceType_media
  | ResourceType_data_asset | ResourceType_locator | ResourceType_relationship
  | ResourceType_alteration | ResourceType_history | ResourceType_space | ResourceType_branch
  | ResourceType_permission | ResourceType_role | ResourceType_ticket | ResourceType_json
  | ResourceType_lock | ResourceType_post | ResourceType_reaction | ResourceType_reply
  | ResourceType_share | ResourceType_plugin_wrapper | ResourceType_notification
  | ResourceType_csv | ResourceType_jsonl | ResourceType_sqlite | ResourceType_duckdb
  | ResourceType_parquet

fun ResourceType_value :: "ResourceType \<Rightarrow> string" where
  "ResourceType_value ResourceType_user = ''user''"
| "ResourceType_value ResourceType_group = ''group''"
| "ResourceType_value ResourceType_folder = ''folder''"
| "ResourceType_value ResourceType_schema = ''schema''"
| "ResourceType_value ResourceType_content = ''content''"
| "ResourceType_value ResourceType_acl = ''acl''"
| "ResourceType_value ResourceType_comment = ''comment''"
| "ResourceType_value ResourceType_media = ''media''"
| "ResourceType_value ResourceType_data_asset = ''data_asset''"
| "ResourceType_value ResourceType_locator = ''locator''"
| "ResourceType_value ResourceType_relationship = ''relationship''"
| "ResourceType_value ResourceType_alteration = ''alteration''"
| "ResourceType_value ResourceType_history = ''history''"
| "ResourceType_value ResourceType_space = ''space''"
| "ResourceType_value ResourceType_branch = ''branch''"
| "ResourceType_value ResourceType_permission = ''permission''"
| "ResourceType_value ResourceType_role = ''role''"
| "ResourceType_value ResourceType_ticket = ''ticket''"
| "ResourceType_value ResourceType_json = ''json''"
| "ResourceType_value ResourceType_lock = ''lock''"
| "ResourceType_value ResourceType_post = ''post''"
| "ResourceType_value ResourceType_reaction = ''reaction''"
| "ResourceType_value ResourceType_reply = ''reply''"
| "ResourceType_value ResourceType_share = ''share''"
| "ResourceType_value ResourceType_plugin_wrapper = ''plugin_wrapper''"
| "ResourceType_value ResourceType_notification = ''notification''"
| "ResourceType_value ResourceType_csv = ''csv''"
| "ResourceType_value ResourceType_jsonl = ''jsonl''"
| "ResourceType_value ResourceType_sqlite = ''sqlite''"
| "ResourceType_value ResourceType_duckdb = ''duckdb''"
| "ResourceType_value ResourceType_parquet = ''parquet''"

datatype RequestMethod =
    RequestMethod_get | RequestMethod_post | RequestMethod_delete | RequestMethod_put
  | RequestMethod_patch

fun RequestMethod_value :: "RequestMethod \<Rightarrow> string" where
  "RequestMethod_value RequestMethod_get = ''get''"
| "RequestMethod_value RequestMethod_post = ''post''"
| "RequestMethod_value RequestMethod_delete = ''delete''"
| "RequestMethod_value RequestMethod_put = ''put''"
| "RequestMethod_value RequestMethod_patch = ''patch''"

section \<open>Records and their construction\<close>

text \<open>
  A Python \<^verbatim>\<open>str\<close> is a sequence of Unicode code points, and the two patterns range over
  code points beyond Latin-1, so the two pattern-constrained fields are lists of code points.
\<close>

type_synonym unicode = "nat list"

definition ascii :: "string \<Rightarrow> unicode" where
  "ascii s = map of_char s"

text \<open>
  The patterns \<^verbatim>\<open>SHORTNAME\<close> and \<^verbatim>\<open>SUBPATH\<close>: 1 to 64 (1 to 128) characters out of
  \<^verbatim>\<open>a-z\<close>, \<^verbatim>\<open>A-Z\<close>, U+0621 to U+064A, \<^verbatim>\<open>0-9\<close>, U+0660 to U+0669 and the underscore;
  \<^verbatim>\<open>SUBPATH\<close> allows the slash too.
\<close>

definition SHORTNAME_char :: "nat \<Rightarrow> bool" where
  "SHORTNAME_char c \<longleftrightarrow>
     (97 \<le> c \<and> c \<le> 122) \<or> (65 \<le> c \<and> c \<le> 90) \<or> (0x621 \<le> c \<and> c \<le> 0x64A) \<or>
     (48 \<le> c \<and> c \<le> 57) \<or> (0x660 \<le> c \<and> c \<le> 0x669) \<or> c = 95"

definition SUBPATH_char :: "nat \<Rightarrow> bool" where
  "SUBPATH_char c \<longleftrightarrow> SHORTNAME_char c \<or> c = 47"

definition SHORTNAME :: "unicode \<Rightarrow> bool" where
  "SHORTNAME s \<longleftrightarrow> 1 \<le> length s \<and> length s \<le> 64 \<and> list_all SHORTNAME_char s"

definition SUBPATH :: "unicode \<Rightarrow> bool" where
  "SUBPATH s \<longleftrightarrow> 1 \<le> length s \<and> length s \<le> 128 \<and> list_all SUBPATH_char s"

text \<open>\<^verbatim>\<open>s.strip(chars)\<close>: drop the characters of \<open>chars\<close> from both ends.\<close>

definition strip :: "'a list \<Rightarrow> 'a list \<Rightarrow> 'a list" where
  "strip chars s =
     rev (dropWhile (\<lambda>c. c \<in> set chars) (rev (dropWhile (\<lambda>c. c \<in> set chars) s)))"

datatype UUID = UUID_int nat

record Record =
  resource_type :: ResourceType
  uuid :: "UUID option"
  shortname :: unicode
  subpath :: unicode
  record_attributes :: "(string \<times> json) list"
  attachments :: "(ResourceType \<times> json list) list option"
  retrieve_lock_status :: bool

text \<open>
  \<^verbatim>\<open>Record.__init__(**data)\<close>, on keyword arguments that have the annotated types:
  \<^verbatim>\<open>BaseModel.__init__\<close> checks the two patterns, then the subpath is stripped.
\<close>

definition Record_init :: "Record \<Rightarrow> exn + Record" where
  "Record_init data =
     (if SHORTNAME (shortname data) \<and> SUBPATH (subpath data) then
        if subpath data \<noteq> ascii ''/''
        then Inr (data\<lparr>subpath := strip (ascii ''/'') (subpath data)\<rparr>)
        else Inr data
      else Inl ValidationError)"

section \<open>The transport and the library around the client\<close>

datatype header_value = Plain string | Bearer json
  \<comment> \<open>\<open>Bearer t\<close> is the f-string \<^verbatim>\<open>f"Bearer {t}"\<close>\<close>

datatype form_value = JsonFile "(string \<times> json) list" | BinaryFile string | TextValue string
  \<comment> \<open>\<open>JsonFile r\<close> is \<^verbatim>\<open>BytesIO(bytes(json.dumps(r), "utf-8"))\<close>\<close>

record form_field =
  field_name :: string
  field_value :: form_value
  filename :: "string option"
  content_type :: "string option"

record http_request =
  req_method :: string
  req_url :: string
  req_headers :: "(string \<times> header_value) list"
  req_json :: "json option"
  req_data :: "form_field list option"

text \<open>
  What entering \<^verbatim>\<open>async with session.request(...)\<close> and then \<^verbatim>\<open>await response.json()\<close>
  can give: no response at all (aiohttp raises a \<^verbatim>\<open>ClientError\<close>), or a response with a
  status and a body that decodes, has the wrong content type, or is not JSON.
\<close>

datatype body = Json json | WrongContentType | InvalidJson

datatype outcome = NoResponse | Response int body

text \<open>
  Everything outside the repository: the backend, which answers a request given the
  requests sent before it, and pydantic's lax coercion of a string or of a float (by its
  \<^verbatim>\<open>repr\<close>) to an \<^verbatim>\<open>int\<close> field.
\<close>

record environment =
  backend :: "http_request list \<Rightarrow> http_request \<Rightarrow> outcome"
  int_of_str :: "string \<Rightarrow> int option"
  int_of_float :: "string \<Rightarrow> int option"

subsection \<open>The pydantic models\<close>

fun Error_code :: "environment \<Rightarrow> json \<Rightarrow> int option" where
  "Error_code env (JInt n) = Some n"
| "Error_code env (JBool b) = Some (if b then 1 else 0)"
| "Error_code env (JStr s) = int_of_str env s"
| "Error_code env (JFloat r) = int_of_float env r"
| "Error_code env _ = None"

fun dict_of :: "json \<Rightarrow> (string \<times> json) list option" where
  "dict_of (JObj kvs) = Some kvs"
| "dict_of _ = None"

fun str_of :: "json \<Rightarrow> string option" where
  "str_of (JStr s) = Some s"
| "str_of _ = None"

text \<open>\<^verbatim>\<open>info: list[dict] | None = None\<close>\<close>

fun Error_info :: "json option \<Rightarrow> (string \<times> json) list list option option" where
  "Error_info None = Some None"
| "Error_info (Some JNull) = Some None"
| "Error_info (Some (JArr xs)) = map_option Some (those (map dict_of xs))"
| "Error_info (Some _) = None"

text \<open>\<^verbatim>\<open>Error.model_validate(obj)\<close>: \<open>obj\<close> must be a dict with the three required fields.\<close>

fun Error_model_validate :: "environment \<Rightarrow> json \<Rightarrow> exn + Error" where
  "Error_model_validate env (JObj kvs) =
     (case (Option.bind (map_of kvs ''type'') str_of,
            Option.bind (map_of kvs ''code'') (Error_code env),
            Option.bind (map_of kvs ''message'') str_of,
            Error_info (map_of kvs ''info'')) of
        (Some t, Some c, Some m, Some i) \<Rightarrow> Inr \<lparr>type = t, code = c, message = m, info = i\<rparr>
      | _ \<Rightarrow> Inl ValidationError)"
| "Error_model_validate env _ = Inl ValidationError"

record DmartResponse =
  status :: Status
  error :: "Error option"
  records :: "json option"
  attributes :: "(string \<times> json) list option"

text \<open>
  The objects that reach \<^verbatim>\<open>DmartResponse.model_validate\<close>: a decoded JSON value, an
  aiohttp \<^verbatim>\<open>ClientResponse\<close>, or an envelope that is already one.
\<close>

datatype pyobj = PyJson json | PyClientResponse int body | PyDmartResponse DmartResponse

fun Status_of :: "json \<Rightarrow> Status option" where
  "Status_of (JStr s) =
     (if s = ''success'' then Some Status_success
      else if s = ''failed'' then Some Status_failed else None)"
| "Status_of _ = None"

fun optional_Error :: "environment \<Rightarrow> json option \<Rightarrow> Error option option" where
  "optional_Error env None = Some None"
| "optional_Error env (Some JNull) = Some None"
| "optional_Error env (Some j) =
     (case Error_model_validate env j of Inl e \<Rightarrow> None | Inr err \<Rightarrow> Some (Some err))"

fun optional_dict :: "json option \<Rightarrow> (string \<times> json) list option option" where
  "optional_dict None = Some None"
| "optional_dict (Some JNull) = Some None"
| "optional_dict (Some (JObj kvs)) = Some (Some kvs)"
| "optional_dict (Some _) = None"

fun optional_any :: "json option \<Rightarrow> json option" where
  "optional_any None = None"
| "optional_any (Some JNull) = None"
| "optional_any (Some j) = Some j"

text \<open>
  \<^verbatim>\<open>DmartResponse.model_validate(obj)\<close>. The model configuration is the default one
  (no \<^verbatim>\<open>from_attributes\<close>), so only a dict or an instance of the model is accepted; any
  other object, an aiohttp response among them, is a validation error. In a dict,
  \<^verbatim>\<open>records: list[Record] | Any | None\<close> rejects nothing; the field keeps the decoded value
  here (the conversion of list items to \<^verbatim>\<open>Record\<close> objects is not followed).
\<close>

fun DmartResponse_model_validate :: "environment \<Rightarrow> pyobj \<Rightarrow> exn + DmartResponse" where
  "DmartResponse_model_validate env (PyDmartResponse r) = Inr r"
| "DmartResponse_model_validate env (PyClientResponse st b) = Inl ValidationError"
| "DmartResponse_model_validate env (PyJson (JObj kvs)) =
     (case (Option.bind (map_of kvs ''status'') Status_of,
            optional_Error env (map_of kvs ''error''),
            optional_dict (map_of kvs ''attributes'')) of
        (Some s, Some e, Some a) \<Rightarrow>
          Inr \<lparr>status = s, error = e, records = optional_any (map_of kvs ''records''),
               attributes = a\<rparr>
      | _ \<Rightarrow> Inl ValidationError)"
| "DmartResponse_model_validate env (PyJson _) = Inl ValidationError"

section \<open>The client\<close>

text \<open>
  The state of the class and of one instance of it. An attribute that was never assigned
  is \<open>None\<close> here, and reading it raises \<^verbatim>\<open>AttributeError\<close>: the class body assigns no
  \<^verbatim>\<open>session\<close>, and \<^verbatim>\<open>__init__\<close> assigns no \<^verbatim>\<open>auth_token\<close>. The two remaining fields
  are ghost state: the number of \<^verbatim>\<open>aiohttp.ClientSession\<close> objects constructed so far, and
  the requests handed to the transport so far, oldest first.
\<close>

datatype session_value = PyNone | ClientSession nat

record DmartService =
  session :: "session_value option"
  dmart_url :: string
  username :: string
  password :: string
  auth_token :: "json option"
  pools_created :: nat
  sent :: "http_request list"

type_synonym 'a result = "(exn + 'a) \<times> DmartService"

definition create_session_pool :: "DmartService \<Rightarrow> unit result" where
  "create_session_pool s =
     (case session s of
        None \<Rightarrow> (Inl AttributeError, s)
      | Some PyNone \<Rightarrow>
          (Inr (), s\<lparr>session := Some (ClientSession (pools_created s)),
                      pools_created := Suc (pools_created s)\<rparr>)
      | Some (ClientSession p) \<Rightarrow> (Inr (), s))"

text \<open>\<^verbatim>\<open>__init__\<close> makes a new instance: its three fields are set, its token is not.\<close>

definition DmartService_init :: "string \<Rightarrow> string \<Rightarrow> string \<Rightarrow> DmartService \<Rightarrow> unit result" where
  "DmartService_init url u p s =
     create_session_pool (s\<lparr>dmart_url := url, username := u, password := p, auth_token := None\<rparr>)"

text \<open>Handing a request to the transport: it is recorded, and the backend answers.\<close>

definition transport :: "environment \<Rightarrow> DmartService \<Rightarrow> http_request \<Rightarrow> outcome \<times> DmartService" where
  "transport env s req = (backend env (sent s) req, s\<lparr>sent := sent s @ [req]\<rparr>)"

definition login_request :: "DmartService \<Rightarrow> http_request" where
  "login_request s =
     \<lparr>req_method = ''POST'', req_url = dmart_url s @ ''/user/login'',
      req_headers = [(''Content-Type'', Plain ''application/json'')],
      req_json = Some (JObj [(''shortname'', JStr (username s)), (''password'', JStr (password s))]),
      req_data = None\<rparr>"

text \<open>\<^verbatim>\<open>resp_json["records"][0]["attributes"]["access_token"]\<close>\<close>

definition access_token :: "json \<Rightarrow> exn + json" where
  "access_token resp_json =
     (case getitem resp_json ''records'' of Inl e \<Rightarrow> Inl e | Inr recs \<Rightarrow>
      case getitem0 recs of Inl e \<Rightarrow> Inl e | Inr r \<Rightarrow>
      case getitem r ''attributes'' of Inl e \<Rightarrow> Inl e | Inr a \<Rightarrow>
      getitem a ''access_token'')"

text \<open>
  Entering \<^verbatim>\<open>async with\<close> and \<^verbatim>\<open>await response.json()\<close>: the status and the decoded body,
  or the exception of the transport or of the decoder.
\<close>

fun response_json :: "outcome \<Rightarrow> exn + int \<times> json" where
  "response_json NoResponse = Inl ClientError"
| "response_json (Response st WrongContentType) = Inl ContentTypeError"
| "response_json (Response st InvalidJson) = Inl JSONDecodeError"
| "response_json (Response st (Json resp_json)) = Inr (st, resp_json)"

text \<open>The body of \<^verbatim>\<open>connect\<close> once \<^verbatim>\<open>resp_json\<close> is there: the token, or what is raised.\<close>

definition login_token :: "json \<Rightarrow> exn + json" where
  "login_token resp_json =
     (case get_default resp_json ''status'' (JStr ''failed'') of
        Inl e \<Rightarrow> Inl e
      | Inr status_value \<Rightarrow>
         if status_value = JStr ''failed'' then Inl ConnectionError
         else
          (case get_default resp_json ''records'' JNull of
             Inl e \<Rightarrow> Inl e
           | Inr recs \<Rightarrow>
              if \<not> truthy recs then Inl ConnectionError else access_token resp_json))"

definition connect :: "environment \<Rightarrow> DmartService \<Rightarrow> unit result" where
  "connect env s =
     (case session s of
        None \<Rightarrow> (Inl AttributeError, s)
      | Some PyNone \<Rightarrow> (Inl AttributeError, s)
      | Some (ClientSession p) \<Rightarrow>
         (case transport env s (login_request s) of (out, s') \<Rightarrow>
          (case response_json out of
             Inl e \<Rightarrow> (Inl e, s')
           | Inr (st, resp_json) \<Rightarrow>
              (case login_token resp_json of
                 Inl e \<Rightarrow> (Inl e, s')
               | Inr t \<Rightarrow> (Inr (), s'\<lparr>auth_token := Some t\<rparr>)))))"

definition json_headers :: "DmartService \<Rightarrow> exn + (string \<times> header_value) list" where
  "json_headers s =
     (case auth_token s of
        None \<Rightarrow> Inl AttributeError
      | Some t \<Rightarrow> Inr [(''Content-Type'', Plain ''application/json''), (''Authorization'', Bearer t)])"

definition headers :: "DmartService \<Rightarrow> exn + (string \<times> header_value) list" where
  "headers s =
     (case auth_token s of
        None \<Rightarrow> Inl AttributeError
      | Some t \<Rightarrow> Inr [(''Authorization'', Bearer t)])"

text \<open>\<^verbatim>\<open>if json\<close> on an argument that is a dict or \<^verbatim>\<open>None\<close>.\<close>

fun truthy_opt :: "json option \<Rightarrow> bool" where
  "truthy_opt None = False"
| "truthy_opt (Some j) = truthy j"

definition not_authenticated :: exn where
  "not_authenticated =
     DmartException 401
       \<lparr>type = ''login'', code = 10, message = ''Not authenticated Dmart user'', info = None\<rparr>"

text \<open>
  The exception of the branch for a status other than 200:
  \<^verbatim>\<open>DmartException(status_code=response.status, error=Error.model_validate(resp_json["error"]))\<close>,
  or what its arguments raise.
\<close>

definition status_exception :: "environment \<Rightarrow> int \<Rightarrow> json \<Rightarrow> exn" where
  "status_exception env st resp_json =
     (case getitem resp_json ''error'' of
        Inl e \<Rightarrow> e
      | Inr error_value \<Rightarrow>
         (case Error_model_validate env error_value of
            Inl e \<Rightarrow> e
          | Inr err \<Rightarrow> DmartException st err))"

text \<open>
  The body of \<^verbatim>\<open>async with\<close> in \<^verbatim>\<open>__api\<close>. Inside it the response is never \<^verbatim>\<open>None\<close>, so
  the test on it is the test on the status. On status 200 the source validates the
  response object itself, not \<^verbatim>\<open>resp_json\<close>.
\<close>

definition api_response :: "environment \<Rightarrow> outcome \<Rightarrow> exn + DmartResponse" where
  "api_response env out =
     (case response_json out of
        Inl e \<Rightarrow> Inl e
      | Inr (st, resp_json) \<Rightarrow>
         if st \<noteq> 200 then Inl (status_exception env st resp_json)
         else DmartResponse_model_validate env (PyClientResponse st (Json resp_json)))"

text \<open>
  \<^verbatim>\<open>DmartService.__api\<close>. aiohttp refuses a request with both \<^verbatim>\<open>json\<close> and \<^verbatim>\<open>data\<close>
  (\<^verbatim>\<open>ValueError\<close>) before it sends anything.
\<close>

definition api_request ::
  "DmartService \<Rightarrow> (string \<times> header_value) list \<Rightarrow> string \<Rightarrow> RequestMethod \<Rightarrow> json option \<Rightarrow>
   form_field list option \<Rightarrow> http_request" where
  "api_request s hs endpoint method json data =
     \<lparr>req_method = RequestMethod_value method, req_url = dmart_url s @ endpoint,
      req_headers = hs, req_json = json, req_data = data\<rparr>"

definition api ::
  "environment \<Rightarrow> DmartService \<Rightarrow> string \<Rightarrow> RequestMethod \<Rightarrow> json option \<Rightarrow>
   form_field list option \<Rightarrow> DmartResponse result" where
  "api env s endpoint method json data =
     (case auth_token s of
        None \<Rightarrow> (Inl AttributeError, s)
      | Some t \<Rightarrow>
         if \<not> truthy t then (Inl not_authenticated, s)
         else
          (case session s of
             None \<Rightarrow> (Inl AttributeError, s)
           | Some PyNone \<Rightarrow> (Inl AttributeError, s)
           | Some (ClientSession p) \<Rightarrow>
              (case (if truthy_opt json then json_headers s else headers s) of
                 Inl e \<Rightarrow> (Inl e, s)
               | Inr hs \<Rightarrow>
                  if data \<noteq> None \<and> json \<noteq> None then (Inl ValueError, s)
                  else
                   (case transport env s (api_request s hs endpoint method json data) of
                      (out, s') \<Rightarrow> (api_response env out, s')))))"

text \<open>
  The value of \<^verbatim>\<open>self.json_headers if json else self.headers\<close> on a client whose token
  attribute holds \<open>t\<close>.
\<close>

definition selected_headers :: "json \<Rightarrow> json option \<Rightarrow> (string \<times> header_value) list" where
  "selected_headers t j =
     (if truthy_opt j
      then [(''Content-Type'', Plain ''application/json''), (''Authorization'', Bearer t)]
      else [(''Authorization'', Bearer t)])"

definition disconnect :: "environment \<Rightarrow> DmartService \<Rightarrow> unit result" where
  "disconnect env s =
     (case api env s ''/user/logout'' RequestMethod_post None None of
        (Inl e, s') \<Rightarrow> (Inl e, s')
      | (Inr r, s') \<Rightarrow> (Inr (), s'\<lparr>auth_token := Some JNull\<rparr>))"


definition get_profile :: "environment \<Rightarrow> DmartService \<Rightarrow> DmartResponse result" where
  "get_profile env s = api env s ''/user/profile'' RequestMethod_get None None"

subsection \<open>The operations\<close>

text \<open>
  Arguments have their annotated types; a default value is the caller's business. An enum
  member in a body or in an f-string is its string value.
\<close>

definition request_body ::
  "string \<Rightarrow> string \<Rightarrow> string \<Rightarrow> RequestType \<Rightarrow> (string \<times> json) list \<Rightarrow> ResourceType \<Rightarrow> json" where
  "request_body space_name subpath' shortname' request_type attributes' resource_type' =
     JObj [(''space_name'', JStr space_name),
           (''request_type'', JStr (RequestType_value request_type)),
           (''records'',
            JArr [JObj [(''resource_type'', JStr (ResourceType_value resource_type')),
                        (''subpath'', JStr subpath'),
                        (''shortname'', JStr shortname'),
                        (''attributes'', JObj attributes')]])]"

definition request ::
  "environment \<Rightarrow> DmartService \<Rightarrow> string \<Rightarrow> string \<Rightarrow> string \<Rightarrow> RequestType \<Rightarrow>
   (string \<times> json) list \<Rightarrow> ResourceType \<Rightarrow> DmartResponse result" where
  "request env s space_name subpath' shortname' request_type attributes' resource_type' =
     api env s ''/managed/request'' RequestMethod_post
       (Some (request_body space_name subpath' shortname' request_type attributes' resource_type'))
       None"

definition create ::
  "environment \<Rightarrow> DmartService \<Rightarrow> string \<Rightarrow> string \<Rightarrow> (string \<times> json) list \<Rightarrow> string \<Rightarrow>
   ResourceType \<Rightarrow> DmartResponse result" where
  "create env s space_name subpath' attributes' shortname' resource_type' =
     request env s space_name subpath' shortname' RequestType_create attributes' resource_type'"

definition upload_form ::
  "string \<Rightarrow> (string \<times> json) list \<Rightarrow> string \<Rightarrow> string \<Rightarrow> string \<Rightarrow> form_field list" where
  "upload_form space_name record' payload payload_file_name payload_mime_type =
     [\<lparr>field_name = ''request_record'', field_value = JsonFile record',
       filename = Some ''record.json'', content_type = Some ''application/json''\<rparr>,
      \<lparr>field_name = ''payload_file'', field_value = BinaryFile payload,
       filename = Some payload_file_name, content_type = Some payload_mime_type\<rparr>,
      \<lparr>field_name = ''space_name'', field_value = TextValue space_name,
       filename = None, content_type = None\<rparr>]"

definition upload_resource_with_payload ::
  "environment \<Rightarrow> DmartService \<Rightarrow> string \<Rightarrow> (string \<times> json) list \<Rightarrow> string \<Rightarrow> string \<Rightarrow>
   string \<Rightarrow> DmartResponse result" where
  "upload_resource_with_payload env s space_name record' payload payload_file_name
       payload_mime_type =
     api env s ''/managed/resource_with_payload'' RequestMethod_post None
       (Some (upload_form space_name record' payload payload_file_name payload_mime_type))"

fun optional_str :: "string option \<Rightarrow> json" where
  "optional_str None = JNull"
| "optional_str (Some x) = JStr x"

definition query_data_asset ::
  "environment \<Rightarrow> DmartService \<Rightarrow> string \<Rightarrow> string \<Rightarrow> string \<Rightarrow> string \<Rightarrow> string \<Rightarrow>
   string option \<Rightarrow> ResourceType \<Rightarrow> DmartResponse result" where
  "query_data_asset env s space_name subpath' shortname' data_asset_type query_string
       schema_shortname resource_type' =
     api env s ''/managed/data-asset'' RequestMethod_post
       (Some (JObj [(''space_name'', JStr space_name),
                    (''subpath'', JStr subpath'),
                    (''resource_type'', JStr (ResourceType_value resource_type')),
                    (''shortname'', JStr shortname'),
                    (''schema_shortname'', optional_str schema_shortname),
                    (''data_asset_type'', JStr data_asset_type),
                    (''query_string'', JStr query_string)]))
       None"

definition str_bool :: "bool \<Rightarrow> string" where
  "str_bool b = (if b then ''True'' else ''False'')"

definition read ::
  "environment \<Rightarrow> DmartService \<Rightarrow> string \<Rightarrow> string \<Rightarrow> string \<Rightarrow> bool \<Rightarrow> ResourceType \<Rightarrow>
   DmartResponse result" where
  "read env s space_name subpath' shortname' retrieve_attachments resource_type' =
     api env s
       (''/managed/entry/'' @ ResourceType_value resource_type' @ ''/'' @ space_name @ ''/'' @
        subpath' @ ''/'' @ shortname' @
        ''?retrieve_json_payload=true&retrieve_attachments='' @ str_bool retrieve_attachments)
       RequestMethod_get None None"

definition read_json_payload ::
  "environment \<Rightarrow> DmartService \<Rightarrow> string \<Rightarrow> string \<Rightarrow> string \<Rightarrow> DmartResponse result" where
  "read_json_payload env s space_name subpath' shortname' =
     api env s
       (''/managed/payload/content/'' @ space_name @ ''/'' @ subpath' @ ''/'' @ shortname' @
        ''.json'')
       RequestMethod_get None None"

text \<open>
  A dict display that ends in \<^verbatim>\<open>**kwargs\<close>: a key of \<open>kwargs\<close> that is already there
  replaces the value in place, a new key is appended.
\<close>

definition dict_merge :: "(string \<times> json) list \<Rightarrow> (string \<times> json) list \<Rightarrow> (string \<times> json) list" where
  "dict_merge d kwargs = foldl (\<lambda>acc (k, v). AList.update k v acc) d kwargs"

definition query_body ::
  "string \<Rightarrow> string \<Rightarrow> string \<Rightarrow> string list \<Rightarrow> (string \<times> json) list \<Rightarrow> json" where
  "query_body space_name subpath' search filter_schema_names kwargs =
     JObj (dict_merge
             [(''type'', JStr ''search''),
              (''space_name'', JStr space_name),
              (''subpath'', JStr subpath'),
              (''retrieve_json_payload'', JBool True),
              (''filter_schema_names'', JArr (map JStr filter_schema_names)),
              (''search'', JStr search)]
             kwargs)"

definition query ::
  "environment \<Rightarrow> DmartService \<Rightarrow> string \<Rightarrow> string \<Rightarrow> string \<Rightarrow> string list \<Rightarrow>
   (string \<times> json) list \<Rightarrow> DmartResponse result" where
  "query env s space_name subpath' search filter_schema_names kwargs =
     api env s ''/managed/query'' RequestMethod_post
       (Some (query_body space_name subpath' search filter_schema_names kwargs)) None"

definition update ::
  "environment \<Rightarrow> DmartService \<Rightarrow> string \<Rightarrow> string \<Rightarrow> string \<Rightarrow> (string \<times> json) list \<Rightarrow>
   ResourceType \<Rightarrow> DmartResponse result" where
  "update env s space_name subpath' shortname' attributes' resource_type' =
     request env s space_name subpath' shortname' RequestType_update attributes' resource_type'"

text \<open>\<^verbatim>\<open>if cancellation_reasons\<close> on a \<^verbatim>\<open>str | None\<close>: a non-empty string.\<close>

fun resolution_body :: "string option \<Rightarrow> json option" where
  "resolution_body None = None"
| "resolution_body (Some r) = (if r \<noteq> [] then Some (JObj [(''resolution'', JStr r)]) else None)"

definition progress_ticket ::
  "environment \<Rightarrow> DmartService \<Rightarrow> string \<Rightarrow> string \<Rightarrow> string \<Rightarrow> string \<Rightarrow> string option \<Rightarrow>
   DmartResponse result" where
  "progress_ticket env s space_name subpath' shortname' action cancellation_reasons =
     api env s
       (''/managed/progress-ticket/'' @ space_name @ ''/'' @ subpath' @ ''/'' @ shortname' @
        ''/'' @ action)
       RequestMethod_put (resolution_body cancellation_reasons) None"

definition delete ::
  "environment \<Rightarrow> DmartService \<Rightarrow> string \<Rightarrow> string \<Rightarrow> string \<Rightarrow> ResourceType \<Rightarrow>
   DmartResponse result" where
  "delete env s space_name subpath' shortname' resource_type' =
     api env s ''/managed/request'' RequestMethod_post
       (Some (request_body space_name subpath' shortname' RequestType_delete [] resource_type'))
       None"

subsection \<open>All operations at once\<close>

text \<open>
  A call of one of the methods that go through \<^verbatim>\<open>__api\<close>, with its arguments, so that a
  statement about every operation is a statement about every \<open>call\<close>.
\<close>

datatype call =
    Get_profile
  | Create string string "(string \<times> json) list" string ResourceType
  | Read string string string bool ResourceType
  | Update string string string "(string \<times> json) list" ResourceType
  | Delete string string string ResourceType
  | Query string string string "string list" "(string \<times> json) list"
  | Query_data_asset string string string string string "string option" ResourceType
  | Read_json_payload string string string
  | Upload_resource_with_payload string "(string \<times> json) list" string string string
  | Progress_ticket string string string string "string option"

fun perform :: "environment \<Rightarrow> DmartService \<Rightarrow> call \<Rightarrow> DmartResponse result" where
  "perform env s Get_profile = get_profile env s"
| "perform env s (Create sp sub attrs sn rt) = create env s sp sub attrs sn rt"
| "perform env s (Read sp sub sn ra rt) = read env s sp sub sn ra rt"
| "perform env s (Update sp sub sn attrs rt) = update env s sp sub sn attrs rt"
| "perform env s (Delete sp sub sn rt) = delete env s sp sub sn rt"
| "perform env s (Query sp sub se fs kw) = query env s sp sub se fs kw"
| "perform env s (Query_data_asset sp sub sn dt qs ss rt) =
     query_data_asset env s sp sub sn dt qs ss rt"
| "perform env s (Read_json_payload sp sub sn) = read_json_payload env s sp sub sn"
| "perform env s (Upload_resource_with_payload sp r pl fn mt) =
     upload_resource_with_payload env s sp r pl fn mt"
| "perform env s (Progress_ticket sp sub sn a cr) = progress_ticket env s sp sub sn a cr"

section \<open>Concrete clients and backends\<close>

text \<open>
  The class as the module defines it and an instance fresh from \<^verbatim>\<open>__init__\<close>; a class
  whose \<^verbatim>\<open>session\<close> was set to \<^verbatim>\<open>None\<close> from outside; a client that has a pool and the
  token \<^verbatim>\<open>"tok"\<close>; and a backend that gives every request the same answer.
\<close>

definition as_defined :: DmartService where
  "as_defined =
     \<lparr>session = None, dmart_url = ''https://dmart.example'', username = ''alice'',
      password = ''secret'', auth_token = None, pools_created = 0, sent = []\<rparr>"

definition session_preset :: DmartService where
  "session_preset = as_defined\<lparr>session := Some PyNone\<rparr>"

definition pooled :: DmartService where
  "pooled = as_defined\<lparr>session := Some (ClientSession 0), pools_created := 1\<rparr>"

definition logged_in :: DmartService where
  "logged_in = pooled\<lparr>auth_token := Some (JStr ''tok'')\<rparr>"

definition answering :: "outcome \<Rightarrow> environment" where
  "answering out =
     \<lparr>backend = (\<lambda>history req. out), int_of_str = (\<lambda>x. None), int_of_float = (\<lambda>x. None)\<rparr>"

text \<open>A record with nothing but a short name and a subpath.\<close>

definition example_record :: "string \<Rightarrow> Record" where
  "example_record sub =
     \<lparr>resource_type = ResourceType_content, uuid = None, shortname = ascii ''item'',
      subpath = ascii sub, record_attributes = [], attachments = None,
      retrieve_lock_status = False\<rparr>"

text \<open>Calling \<^verbatim>\<open>create_session_pool\<close> \<open>n\<close> times, whatever each call does.\<close>

fun acquire_times :: "nat \<Rightarrow> DmartService \<Rightarrow> DmartService" where
  "acquire_times 0 s = s"
| "acquire_times (Suc n) s = acquire_times n (snd (create_session_pool s))"

section \<open>The dispatcher\<close>

lemma api_response_never_returns: "api_response env out \<noteq> Inr r"
  by (cases "response_json out") (auto simp: api_response_def split: if_splits)

lemma api_sends:
  assumes "auth_token s = Some t" and "truthy t" and "session s = Some (ClientSession p)"
    and "d = None \<or> j = None"
  shows "api env s ep m j d =
     (api_response env (backend env (sent s) (api_request s (selected_headers t j) ep m j d)),
      s\<lparr>sent := sent s @ [api_request s (selected_headers t j) ep m j d]\<rparr>)"
  using assms
  by (auto simp: api_def transport_def json_headers_def headers_def selected_headers_def)

lemma api_frame:
  "snd (api env s ep m j d) = s \<or>
   (\<exists>req. snd (api env s ep m j d) = s\<lparr>sent := sent s @ [req]\<rparr>)"
  by (auto simp: api_def transport_def json_headers_def headers_def
      split: option.split session_value.split)

lemma api_token: "auth_token (snd (api env s ep m j d)) = auth_token s"
  using api_frame [of env s ep m j d] by auto

lemma api_never_returns: "fst (api env s ep m j d) \<noteq> Inr r"
  by (auto simp: api_def transport_def json_headers_def headers_def api_response_never_returns
      split: option.split session_value.split)

lemma api_raises: "\<exists>e s'. api env s ep m j d = (Inl e, s')"
proof (cases "fst (api env s ep m j d)")
  case (Inl e)
  then show ?thesis by (metis prod.collapse)
next
  case (Inr r)
  then show ?thesis using api_never_returns by blast
qed

lemma api_unset_token: "auth_token s = None \<Longrightarrow> api env s ep m j d = (Inl AttributeError, s)"
  by (simp add: api_def)


lemmas operation_defs = get_profile_def create_def read_def update_def delete_def query_def
  query_data_asset_def read_json_payload_def upload_resource_with_payload_def
  progress_ticket_def request_def



lemma init_no_token: "auth_token (snd (DmartService_init url u p s)) = None"
  by (simp add: DmartService_init_def create_session_pool_def
      split: option.split session_value.split)

text \<open>
  C1. An instance on which \<^verbatim>\<open>connect\<close> never succeeded is an instance as \<^verbatim>\<open>__init__\<close> leaves
  it. There the token attribute does not exist, and every operation, \<^verbatim>\<open>disconnect\<close> among
  them, raises \<^verbatim>\<open>AttributeError\<close> where the claim has the 401 exception. Nothing is sent.
\<close>

theorem never_connected_raises_AttributeError:
  "perform env (snd (DmartService_init url u p s)) c =
     (Inl AttributeError, snd (DmartService_init url u p s)) \<and>
   disconnect env (snd (DmartService_init url u p s)) =
     (Inl AttributeError, snd (DmartService_init url u p s))"
proof
  show "perform env (snd (DmartService_init url u p s)) c =
      (Inl AttributeError, snd (DmartService_init url u p s))"
    by (cases c) (simp_all add: operation_defs api_unset_token init_no_token)
  show "disconnect env (snd (DmartService_init url u p s)) =
      (Inl AttributeError, snd (DmartService_init url u p s))"
    by (simp add: disconnect_def api_unset_token init_no_token)
qed

lemma logged_in_simps:
  "auth_token logged_in = Some (JStr ''tok'')" "session logged_in = Some (ClientSession 0)"
  "sent logged_in = []" "dmart_url logged_in = ''https://dmart.example''"
  by (simp_all add: logged_in_def pooled_def as_defined_def)

lemma backend_answering: "backend (answering out) h req = out"
  by (simp add: answering_def)

text \<open>
  C2. A logged-in client queries, and the backend answers with status 200 and the body
  \<^verbatim>\<open>{"status":"success","records":[]}\<close>. The call does not return an envelope: it raises
  pydantic's validation error, since the response object, not its decoded body, is
  validated.
\<close>

theorem query_status_200_raises:
  "fst (query
          (answering (Response 200
             (Json (JObj [(''status'', JStr ''success''), (''records'', JArr [])]))))
          logged_in ''space'' ''sub'' [] [] []) = Inl ValidationError"
  by (simp add: query_def api_sends [where t = "JStr ''tok''" and p = 0] logged_in_simps
      backend_answering api_response_def)

text \<open>The decoded body of that answer does validate, with an empty list of records.\<close>

lemma decoded_body_validates:
  "DmartResponse_model_validate env
     (PyJson (JObj [(''status'', JStr ''success''), (''records'', JArr [])])) =
   Inr \<lparr>status = Status_success, error = None, records = Some (JArr []), attributes = None\<rparr>"
  by simp

section \<open>Disconnecting\<close>

lemma disconnect_raises:
  "\<exists>e. disconnect env s = (Inl e, snd (api env s ''/user/logout'' RequestMethod_post None None))"
proof -
  obtain e s' where "api env s ''/user/logout'' RequestMethod_post None None = (Inl e, s')"
    using api_raises by blast
  then show ?thesis by (simp add: disconnect_def)
qed

text \<open>Whatever the backend answers, \<^verbatim>\<open>disconnect\<close> raises and the token stays.\<close>

lemma disconnect_keeps_token: "auth_token (snd (disconnect env s)) = auth_token s"
  using disconnect_raises [of env s] by (auto simp: api_token)

text \<open>
  A logged-in client disconnects, and the backend answers the logout with status 200:
  \<^verbatim>\<open>disconnect\<close> raises the validation error of \<^verbatim>\<open>__api\<close>, and the token is still
  \<^verbatim>\<open>"tok"\<close>.
\<close>

lemma disconnect_status_200_raises:
  "fst (disconnect (answering (Response 200 (Json (JObj [(''status'', JStr ''success'')]))))
          logged_in) = Inl ValidationError \<and>
   auth_token
     (snd (disconnect (answering (Response 200 (Json (JObj [(''status'', JStr ''success'')]))))
             logged_in)) = Some (JStr ''tok'')"
  by (simp add: disconnect_def api_sends [where t = "JStr ''tok''" and p = 0] logged_in_simps
      backend_answering api_response_def)




section \<open>The token is only written by connect and disconnect\<close>

text \<open>
  C9. Every operation other than \<^verbatim>\<open>connect\<close> and \<^verbatim>\<open>disconnect\<close> leaves the stored token as
  it was, whatever the call's outcome.
\<close>

theorem perform_keeps_token: "auth_token (snd (perform env s c)) = auth_token s"
  by (cases c) (simp_all add: operation_defs api_token)

section \<open>Statuses other than 200\<close>

lemma api_result:
  assumes "auth_token s = Some t" and "truthy t" and "session s = Some (ClientSession p)"
    and "d = None \<or> j = None"
  shows "fst (api env s ep m j d) =
     api_response env (backend env (sent s) (api_request s (selected_headers t j) ep m j d))"
  using api_sends [OF assms] by simp

text \<open>
  C3, as stated, fails: a body that is not JSON makes the decoder's exception leave
  \<^verbatim>\<open>__api\<close>, and a transport that gives no response makes the transport's exception leave
  it. Neither is turned into the typed exception.
\<close>

theorem undecodable_body_no_fallback:
  "fst (get_profile (answering (Response 500 InvalidJson)) logged_in) = Inl JSONDecodeError \<and>
   fst (get_profile (answering NoResponse) logged_in) = Inl ClientError"
  by (simp add: get_profile_def api_result [where t = "JStr ''tok''" and p = 0] logged_in_simps
      backend_answering api_response_def)

text \<open>
  C3, amended. For every dispatched request whose response has a status other than 200 and
  a JSON body whose \<^verbatim>\<open>error\<close> field validates as an \<^verbatim>\<open>Error\<close>, \<^verbatim>\<open>__api\<close> raises the typed
  exception with that status and that \<^verbatim>\<open>Error\<close>. There is no fallback: when the body is not
  JSON the decoder's exception is raised, and when there is no response the transport's.
\<close>

theorem api_error_mapping:
  assumes "auth_token s = Some t" and "truthy t" and "session s = Some (ClientSession p)"
    and "d = None \<or> j = None"
    and "backend env (sent s) (api_request s (selected_headers t j) ep m j d) = out"
  shows "(out = Response st (Json resp_json) \<and> st \<noteq> 200 \<and>
          getitem resp_json ''error'' = Inr error_value \<and>
          Error_model_validate env error_value = Inr err \<longrightarrow>
            fst (api env s ep m j d) = Inl (DmartException st err)) \<and>
         (out = Response st InvalidJson \<longrightarrow> fst (api env s ep m j d) = Inl JSONDecodeError) \<and>
         (out = Response st WrongContentType \<longrightarrow>
            fst (api env s ep m j d) = Inl ContentTypeError) \<and>
         (out = NoResponse \<longrightarrow> fst (api env s ep m j d) = Inl ClientError)"
  using assms(5)
  by (simp add: api_result [OF assms(1-4)] api_response_def status_exception_def)

theorem api_error_mapping_witness:
  "fst (api (answering (Response 422 (Json (JObj
          [(''status'', JStr ''failed''),
           (''error'', JObj [(''type'', JStr ''validation''), (''code'', JInt 12),
                             (''message'', JStr ''bad shortname'')])]))))
        logged_in ''/user/profile'' RequestMethod_get None None) =
   Inl (DmartException 422
          \<lparr>type = ''validation'', code = 12, message = ''bad shortname'', info = None\<rparr>)"
  using api_error_mapping [of logged_in "JStr ''tok''" 0 None None
      "answering (Response 422 (Json (JObj
          [(''status'', JStr ''failed''),
           (''error'', JObj [(''type'', JStr ''validation''), (''code'', JInt 12),
                             (''message'', JStr ''bad shortname'')])])))"
      "''/user/profile''" RequestMethod_get
      "Response 422 (Json (JObj
          [(''status'', JStr ''failed''),
           (''error'', JObj [(''type'', JStr ''validation''), (''code'', JInt 12),
                             (''message'', JStr ''bad shortname'')])]))"
      422 "JObj
          [(''status'', JStr ''failed''),
           (''error'', JObj [(''type'', JStr ''validation''), (''code'', JInt 12),
                             (''message'', JStr ''bad shortname'')])]"
      "JObj [(''type'', JStr ''validation''), (''code'', JInt 12),
                             (''message'', JStr ''bad shortname'')]"
      "\<lparr>type = ''validation'', code = 12, message = ''bad shortname'', info = None\<rparr>"]
  by (simp add: logged_in_simps backend_answering)

section \<open>Connecting\<close>

lemma connect_sends:
  assumes "session s = Some (ClientSession p)"
  shows "connect env s =
     (case response_json (backend env (sent s) (login_request s)) of
        Inl e \<Rightarrow> (Inl e, s\<lparr>sent := sent s @ [login_request s]\<rparr>)
      | Inr (st, resp_json) \<Rightarrow>
         (case login_token resp_json of
            Inl e \<Rightarrow> (Inl e, s\<lparr>sent := sent s @ [login_request s]\<rparr>)
          | Inr t \<Rightarrow> (Inr (), s\<lparr>sent := sent s @ [login_request s], auth_token := Some t\<rparr>)))"
  using assms by (simp add: connect_def transport_def)

lemma pooled_simps:
  "auth_token pooled = None" "session pooled = Some (ClientSession 0)" "sent pooled = []"
  by (simp_all add: pooled_def as_defined_def)

text \<open>
  C5. When the login response has the status \<^verbatim>\<open>"failed"\<close>, or has no records (the key is
  absent or its value is falsy: an empty list, \<^verbatim>\<open>null\<close>), \<^verbatim>\<open>connect\<close> raises
  \<^verbatim>\<open>ConnectionError\<close> and the instance is as before, the request sent apart. When the status
  is another one and the first record has \<^verbatim>\<open>attributes.access_token\<close>, that value is stored
  as the token.
\<close>

theorem connect_fails_or_stores_token:
  assumes "session s = Some (ClientSession p)"
    and "backend env (sent s) (login_request s) = Response st (Json (JObj kvs))"
  shows "(map_of kvs ''status'' = Some (JStr ''failed'') \<or>
          \<not> truthy (case map_of kvs ''records'' of None \<Rightarrow> JNull | Some recs \<Rightarrow> recs) \<longrightarrow>
            connect env s = (Inl ConnectionError, s\<lparr>sent := sent s @ [login_request s]\<rparr>)) \<and>
         (map_of kvs ''status'' = Some status_value \<and> status_value \<noteq> JStr ''failed'' \<and>
          map_of kvs ''records'' = Some (JArr (JObj r # rs)) \<and>
          map_of r ''attributes'' = Some (JObj a) \<and> map_of a ''access_token'' = Some t \<longrightarrow>
            connect env s =
              (Inr (), s\<lparr>sent := sent s @ [login_request s], auth_token := Some t\<rparr>))"
  using assms(2)
  by (auto simp: connect_sends [OF assms(1)] login_token_def access_token_def split: option.split)

theorem connect_fails_or_stores_token_witness:
  "connect (answering (Response 401 (Json (JObj [(''status'', JStr ''failed'')])))) pooled =
     (Inl ConnectionError, pooled\<lparr>sent := [login_request pooled]\<rparr>) \<and>
   connect (answering (Response 200 (Json (JObj [(''status'', JStr ''success''),
       (''records'', JArr [JObj [(''attributes'', JObj [(''access_token'', JStr ''abc'')])]])]))))
     pooled =
     (Inr (), pooled\<lparr>sent := [login_request pooled], auth_token := Some (JStr ''abc'')\<rparr>)"
proof
  have p: "session pooled = Some (ClientSession 0)" by (simp add: pooled_simps)
  have b: "backend (answering (Response 401 (Json (JObj [(''status'', JStr ''failed'')]))))
      (sent pooled) (login_request pooled) =
      Response 401 (Json (JObj [(''status'', JStr ''failed'')]))"
    by (simp add: backend_answering)
  from connect_fails_or_stores_token [OF p b, THEN conjunct1]
  show "connect (answering (Response 401 (Json (JObj [(''status'', JStr ''failed'')])))) pooled =
     (Inl ConnectionError, pooled\<lparr>sent := [login_request pooled]\<rparr>)"
    by (simp add: pooled_simps)
next
  have p: "session pooled = Some (ClientSession 0)" by (simp add: pooled_simps)
  let ?a = "[(''access_token'', JStr ''abc'')]"
  let ?r = "[(''attributes'', JObj ?a)]"
  let ?kvs = "[(''status'', JStr ''success''), (''records'', JArr [JObj ?r])]"
  have b: "backend (answering (Response 200 (Json (JObj ?kvs)))) (sent pooled)
      (login_request pooled) = Response 200 (Json (JObj ?kvs))"
    by (simp add: backend_answering)
  from connect_fails_or_stores_token [where status_value = "JStr ''success''" and r = ?r
      and rs = "[]" and a = ?a and t = "JStr ''abc''", OF p b, THEN conjunct2]
  show "connect (answering (Response 200 (Json (JObj ?kvs)))) pooled =
     (Inr (), pooled\<lparr>sent := [login_request pooled], auth_token := Some (JStr ''abc'')\<rparr>)"
    by (simp add: pooled_simps)
qed

text \<open>
  C10. A login response without a \<^verbatim>\<open>status\<close> key counts as failed: \<^verbatim>\<open>connect\<close> raises
  \<^verbatim>\<open>ConnectionError\<close> and stores no token, whatever the records are.
\<close>

theorem connect_without_status_fails:
  assumes "session s = Some (ClientSession p)"
    and "backend env (sent s) (login_request s) = Response st (Json (JObj kvs))"
    and "map_of kvs ''status'' = None"
  shows "connect env s = (Inl ConnectionError, s\<lparr>sent := sent s @ [login_request s]\<rparr>)"
  using assms(2,3)
  by (simp add: connect_sends [OF assms(1)] login_token_def)


theorem connect_without_status_fails_witness:
  "connect (answering (Response 200 (Json (JObj
       [(''records'', JArr [JObj [(''attributes'', JObj [(''access_token'', JStr ''abc'')])]])]))))
     pooled =
     (Inl ConnectionError, pooled\<lparr>sent := [login_request pooled]\<rparr>)"
proof -
  have p: "session pooled = Some (ClientSession 0)" by (simp add: pooled_simps)
  let ?kvs = "[(''records'', JArr [JObj [(''attributes'', JObj [(''access_token'', JStr ''abc'')])]])]"
  have b: "backend (answering (Response 200 (Json (JObj ?kvs)))) (sent pooled)
      (login_request pooled) = Response 200 (Json (JObj ?kvs))"
    by (simp add: backend_answering)
  have k: "map_of ?kvs ''status'' = None" by simp
  from connect_without_status_fails [OF p b k] show ?thesis by (simp add: pooled_simps)
qed


section \<open>The session pool\<close>

lemma acquire_unset: "session s = None \<Longrightarrow> acquire_times n s = s"
  by (induction n) (simp_all add: create_session_pool_def)

lemma acquire_pooled: "session s = Some (ClientSession p) \<Longrightarrow> acquire_times n s = s"
  by (induction n) (simp_all add: create_session_pool_def)

lemma acquire_preset:
  "session s = Some PyNone \<Longrightarrow>
   acquire_times (Suc n) s =
     s\<lparr>session := Some (ClientSession (pools_created s)), pools_created := Suc (pools_created s)\<rparr>"
  by (simp add: create_session_pool_def acquire_pooled)

lemma create_session_pool_idempotent:
  "snd (create_session_pool (snd (create_session_pool s))) = snd (create_session_pool s)"
  by (simp add: create_session_pool_def split: option.split session_value.split)

text \<open>
  C6. On the class as the module defines it, \<^verbatim>\<open>cls.session\<close> does not exist: the first call
  of \<^verbatim>\<open>create_session_pool\<close> raises \<^verbatim>\<open>AttributeError\<close>, and so does every later one. No
  pool is ever created. (Once the attribute has been set to \<^verbatim>\<open>None\<close> from outside, the first
  call creates the pool and the later ones keep it: \<open>acquire_preset\<close>.)
\<close>

theorem create_session_pool_as_defined:
  "create_session_pool as_defined = (Inl AttributeError, as_defined) \<and>
   session (acquire_times n as_defined) = None \<and>
   pools_created (acquire_times n as_defined) = 0"
  by (simp add: acquire_unset create_session_pool_def as_defined_def)

section \<open>The subpath of a record\<close>

lemma strip_decomposition:
  "\<exists>pre suf. s = pre @ strip chars s @ suf \<and> set pre \<subseteq> set chars \<and> set suf \<subseteq> set chars"
proof -
  let ?P = "\<lambda>c. c \<in> set chars"
  let ?b = "dropWhile ?P s"
  have "s = takeWhile ?P s @ ?b" by simp
  moreover have "?b = rev (dropWhile ?P (rev ?b)) @ rev (takeWhile ?P (rev ?b))"
    by (metis rev_append rev_rev_ident takeWhile_dropWhile_id)
  moreover have "set (takeWhile ?P s) \<subseteq> set chars"
    by (auto dest: set_takeWhileD)
  moreover have "set (rev (takeWhile ?P (rev ?b))) \<subseteq> set chars"
    by (auto dest: set_takeWhileD)
  ultimately show ?thesis
    unfolding strip_def by (metis append.assoc)
qed

lemma strip_ends:
  assumes "strip chars s \<noteq> []"
  shows "hd (strip chars s) \<notin> set chars \<and> last (strip chars s) \<notin> set chars"
proof -
  let ?P = "\<lambda>c. c \<in> set chars"
  let ?b = "dropWhile ?P s"
  let ?c = "dropWhile ?P (rev ?b)"
  have c: "?c \<noteq> []" using assms by (simp add: strip_def)
  have b: "?b \<noteq> []"
  proof
    assume "?b = []"
    then have "?c = []" by (metis dropWhile.simps(1) rev.simps(1))
    with c show False by simp
  qed
  have "last (strip chars s) = hd ?c" using c by (simp add: strip_def last_rev)
  moreover have "\<not> ?P (hd ?c)" using c by (rule hd_dropWhile)
  moreover have "hd (strip chars s) = last ?c" using c by (simp add: strip_def hd_rev)
  moreover have "last ?c = last (rev ?b)"
    using c by (metis last_appendR takeWhile_dropWhile_id)
  moreover have "last (rev ?b) = hd ?b" using b by (simp add: last_rev)
  moreover have "\<not> ?P (hd ?b)" using b by (rule hd_dropWhile)
  ultimately show ?thesis by simp
qed

text \<open>
  C7. Construction of a record whose fields match the patterns succeeds, and changes the
  subpath only: the root \<^verbatim>\<open>"/"\<close> is stored as it is; of any other subpath the stored value
  is what is left when the slashes at both ends are removed, so it neither starts nor ends
  with a slash.
\<close>

theorem Record_init_subpath:
  assumes "SHORTNAME (shortname d)" and "SUBPATH (subpath d)"
  shows "\<exists>stored. Record_init d = Inr (d\<lparr>subpath := stored\<rparr>) \<and>
     (if subpath d = ascii ''/'' then stored = ascii ''/''
      else (\<exists>pre suf. subpath d = pre @ stored @ suf \<and>
               set pre \<subseteq> set (ascii ''/'') \<and> set suf \<subseteq> set (ascii ''/'')) \<and>
           (stored = [] \<or> hd stored \<notin> set (ascii ''/'') \<and> last stored \<notin> set (ascii ''/'')))"
proof (cases "subpath d = ascii ''/''")
  case True
  then have "Record_init d = Inr (d\<lparr>subpath := ascii ''/''\<rparr>)"
    using assms by (simp add: Record_init_def)
  with True show ?thesis by auto
next
  case False
  then have "Record_init d = Inr (d\<lparr>subpath := strip (ascii ''/'') (subpath d)\<rparr>)"
    using assms by (simp add: Record_init_def)
  with False show ?thesis
    using strip_decomposition [of "subpath d" "ascii ''/''"]
      strip_ends [of "ascii ''/''" "subpath d"]
    by auto
qed

theorem Record_init_subpath_witness:
  "SHORTNAME (shortname (example_record ''/a/b/'')) \<and>
   SUBPATH (subpath (example_record ''/a/b/'')) \<and>
   Record_init (example_record ''/a/b/'') = Inr (example_record ''a/b'') \<and>
   Record_init (example_record ''/'') = Inr (example_record ''/'')"
  using Record_init_subpath [of "example_record ''/a/b/''"]
    Record_init_subpath [of "example_record ''/''"]
  by (simp add: example_record_def Record_init_def strip_def ascii_def SHORTNAME_def SUBPATH_def
      SHORTNAME_char_def SUBPATH_char_def)


section \<open>Header selection\<close>

lemma dict_merge_nonempty: "d \<noteq> [] \<Longrightarrow> dict_merge d kwargs \<noteq> []"
proof (induction kwargs arbitrary: d)
  case Nil
  then show ?case by (simp add: dict_merge_def)
next
  case (Cons kv kwargs)
  obtain k v where kv: "kv = (k, v)" by (cases kv)
  have "AList.update k v d \<noteq> []" by (rule AList.update_nonempty)
  then have "dict_merge (AList.update k v d) kwargs \<noteq> []" by (rule Cons.IH)
  then show ?case by (simp add: dict_merge_def kv)
qed

lemma resolution_body_truthy: "resolution_body cr = None \<or> truthy_opt (resolution_body cr)"
  by (cases cr) simp_all

lemma query_body_truthy: "truthy (query_body sp sub se fs kw)"
proof -
  have "dict_merge
          [(''type'', JStr ''search''),
           (''space_name'', JStr sp),
           (''subpath'', JStr sub),
           (''retrieve_json_payload'', JBool True),
           (''filter_schema_names'', JArr (map JStr fs)),
           (''search'', JStr se)] kw \<noteq> []"
    by (rule dict_merge_nonempty) simp
  then show ?thesis by (simp add: query_body_def)
qed

lemma request_body_truthy: "truthy (request_body sp sub sn rq attrs rt)"
  by (simp add: request_body_def)


lemma api_header_selection:
  assumes "auth_token s = Some t" and "truthy t" and "session s = Some (ClientSession p)"
    and "d = None \<or> j = None" and "j = None \<or> truthy_opt j"
  shows "\<exists>req. sent (snd (api env s ep m j d)) = sent s @ [req] \<and>
           (req_data req = None \<or> req_json req = None) \<and>
           req_headers req =
             (if req_json req = None then [(''Authorization'', Bearer t)]
              else [(''Content-Type'', Plain ''application/json''), (''Authorization'', Bearer t)])"
proof -
  let ?req = "api_request s (selected_headers t j) ep m j d"
  have "sent (snd (api env s ep m j d)) = sent s @ [?req]"
    by (simp add: api_sends [OF assms(1-4)])
  moreover have "req_data ?req = None \<or> req_json ?req = None"
    using assms(4) by (simp add: api_request_def)
  moreover have "req_headers ?req =
      (if req_json ?req = None then [(''Authorization'', Bearer t)]
       else [(''Content-Type'', Plain ''application/json''), (''Authorization'', Bearer t)])"
  proof (cases j)
    case None
    then show ?thesis by (simp add: api_request_def selected_headers_def)
  next
    case (Some b)
    with assms(5) have "truthy_opt j" by simp
    with Some show ?thesis by (simp add: api_request_def selected_headers_def)
  qed
  ultimately show ?thesis by blast
qed


text \<open>
  C8. Every request that an operation dispatches with a token carries the bearer
  Authorization header; it carries the JSON Content-Type header before it exactly when it
  has a JSON body, and a request with form data has no JSON body.
\<close>

theorem header_selection:
  assumes "auth_token s = Some t" and "truthy t" and "session s = Some (ClientSession p)"
  shows "(\<exists>req. sent (snd (perform env s c)) = sent s @ [req] \<and>
           (req_data req = None \<or> req_json req = None) \<and>
           req_headers req =
             (if req_json req = None then [(''Authorization'', Bearer t)]
              else [(''Content-Type'', Plain ''application/json''),
                    (''Authorization'', Bearer t)])) \<and>
         (\<exists>req. sent (snd (disconnect env s)) = sent s @ [req] \<and>
           (req_data req = None \<or> req_json req = None) \<and>
           req_headers req =
             (if req_json req = None then [(''Authorization'', Bearer t)]
              else [(''Content-Type'', Plain ''application/json''),
                    (''Authorization'', Bearer t)]))"
proof
  show "\<exists>req. sent (snd (perform env s c)) = sent s @ [req] \<and>
           (req_data req = None \<or> req_json req = None) \<and>
           req_headers req =
             (if req_json req = None then [(''Authorization'', Bearer t)]
              else [(''Content-Type'', Plain ''application/json''),
                    (''Authorization'', Bearer t)])"
  proof (cases c)
    case Get_profile
    show ?thesis unfolding Get_profile perform.simps get_profile_def
      by (rule api_header_selection [OF assms]) simp_all
  next
    case (Create sp sub attrs sn rt)
    show ?thesis unfolding Create perform.simps create_def request_def
      by (rule api_header_selection [OF assms]) (simp_all add: request_body_truthy)
  next
    case (Read sp sub sn ra rt)
    show ?thesis unfolding Read perform.simps read_def
      by (rule api_header_selection [OF assms]) simp_all
  next
    case (Update sp sub sn attrs rt)
    show ?thesis unfolding Update perform.simps update_def request_def
      by (rule api_header_selection [OF assms]) (simp_all add: request_body_truthy)
  next
    case (Delete sp sub sn rt)
    show ?thesis unfolding Delete perform.simps delete_def
      by (rule api_header_selection [OF assms]) (simp_all add: request_body_truthy)
  next
    case (Query sp sub se fs kw)
    show ?thesis unfolding Query perform.simps query_def
      by (rule api_header_selection [OF assms]) (simp_all add: query_body_truthy)
  next
    case (Query_data_asset sp sub sn dt qs ss rt)
    show ?thesis unfolding Query_data_asset perform.simps query_data_asset_def
      by (rule api_header_selection [OF assms]) simp_all
  next
    case (Read_json_payload sp sub sn)
    show ?thesis unfolding Read_json_payload perform.simps read_json_payload_def
      by (rule api_header_selection [OF assms]) simp_all
  next
    case (Upload_resource_with_payload sp r pl fn mt)
    show ?thesis
      unfolding Upload_resource_with_payload perform.simps upload_resource_with_payload_def
      by (rule api_header_selection [OF assms]) simp_all
  next
    case (Progress_ticket sp sub sn a cr)
    show ?thesis unfolding Progress_ticket perform.simps progress_ticket_def
      by (rule api_header_selection [OF assms]) (simp_all add: resolution_body_truthy)
  qed
next
  obtain e where "disconnect env s =
      (Inl e, snd (api env s ''/user/logout'' RequestMethod_post None None))"
    using disconnect_raises by blast
  then have "snd (disconnect env s) = snd (api env s ''/user/logout'' RequestMethod_post None None)"
    by simp
  then show "\<exists>req. sent (snd (disconnect env s)) = sent s @ [req] \<and>
           (req_data req = None \<or> req_json req = None) \<and>
           req_headers req =
             (if req_json req = None then [(''Authorization'', Bearer t)]
              else [(''Content-Type'', Plain ''application/json''),
                    (''Authorization'', Bearer t)])"
    using api_header_selection [OF assms, of None None env "''/user/logout''" RequestMethod_post]
    by simp
qed

text \<open>
  No operation passes an empty dict as the body. \<^verbatim>\<open>__api\<close> itself tests the truth value
  of \<^verbatim>\<open>json\<close>, so an empty dict would be sent with the Authorization header alone.
\<close>

lemma empty_json_body_headers:
  "map req_headers (sent (snd (api env logged_in ep m (Some (JObj [])) None))) =
     [[(''Authorization'', Bearer (JStr ''tok''))]] \<and>
   map req_json (sent (snd (api env logged_in ep m (Some (JObj [])) None))) = [Some (JObj [])]"
  by (simp add: api_sends [where t = "JStr ''tok''" and p = 0] logged_in_simps
      api_request_def selected_headers_def)

theorem header_selection_witness:
  "map req_headers
     (sent (snd (perform (answering NoResponse) logged_in
                   (Create ''space'' ''sub'' [] ''auto'' ResourceType_content)))) =
     [[(''Content-Type'', Plain ''application/json''),
       (''Authorization'', Bearer (JStr ''tok''))]] \<and>
   map req_headers
     (sent (snd (perform (answering NoResponse) logged_in
                   (Upload_resource_with_payload ''space'' [] ''bytes'' ''f.bin''
                      ''application/octet-stream'')))) =
     [[(''Authorization'', Bearer (JStr ''tok''))]]"
proof
  let ?s = "snd (perform (answering NoResponse) logged_in
                   (Create ''space'' ''sub'' [] ''auto'' ResourceType_content))"
  have tok: "auth_token logged_in = Some (JStr ''tok'')" and tr: "truthy (JStr ''tok'')"
    and se: "session logged_in = Some (ClientSession 0)"
    by (simp_all add: logged_in_simps)
  have j: "map req_json (sent ?s) \<noteq> [None]"
    by (simp add: create_def request_def api_sends [OF tok tr se] logged_in_simps
        api_request_def)
  from header_selection [OF tok tr se, THEN conjunct1, of "answering NoResponse"
      "Create ''space'' ''sub'' [] ''auto'' ResourceType_content"]
  obtain req where "sent ?s = sent logged_in @ [req]"
    and "req_headers req =
      (if req_json req = None then [(''Authorization'', Bearer (JStr ''tok''))]
       else [(''Content-Type'', Plain ''application/json''),
             (''Authorization'', Bearer (JStr ''tok''))])"
    by blast
  with j show "map req_headers (sent ?s) =
     [[(''Content-Type'', Plain ''application/json''),
       (''Authorization'', Bearer (JStr ''tok''))]]"
    by (simp add: logged_in_simps)
next
  let ?s = "snd (perform (answering NoResponse) logged_in
                   (Upload_resource_with_payload ''space'' [] ''bytes'' ''f.bin''
                      ''application/octet-stream''))"
  have tok: "auth_token logged_in = Some (JStr ''tok'')" and tr: "truthy (JStr ''tok'')"
    and se: "session logged_in = Some (ClientSession 0)"
    by (simp_all add: logged_in_simps)
  have j: "map req_json (sent ?s) = [None]"
    by (simp add: upload_resource_with_payload_def api_sends [OF tok tr se] logged_in_simps
        api_request_def)
  from header_selection [OF tok tr se, THEN conjunct1, of "answering NoResponse"
      "Upload_resource_with_payload ''space'' [] ''bytes'' ''f.bin''
         ''application/octet-stream''"]
  obtain req where "sent ?s = sent logged_in @ [req]"
    and "req_headers req =
      (if req_json req = None then [(''Authorization'', Bearer (JStr ''tok''))]
       else [(''Content-Type'', Plain ''application/json''),
             (''Authorization'', Bearer (JStr ''tok''))])"
    by blast
  with j show "map req_headers (sent ?s) = [[(''Authorization'', Bearer (JStr ''tok''))]]"
    by (simp add: logged_in_simps)
qed


end
